theory Spec2Isabelle
  imports Main
begin

section \<open>The MongoEngine user manager for Django (mongo_auth/models.py)\<close>

text \<open>
  The module defines one manager class, \<open>MongoUserManager\<close>, that is attached to the
  relational model \<open>MongoUser\<close> and redirects its queries to a MongoEngine document
  class. The embedding below follows the file method by method. Exceptions are values
  of \<open>py_error\<close> (a raise is an \<open>Inl\<close>), class objects that the code mutates in place
  live in a store indexed by references, and the collaborators that the file only
  calls (the import system, the settings object, the document layer's \<open>get\<close>) are
  components of an environment.
\<close>

subsection \<open>Exceptions\<close>

text \<open>
  An exception class that a model class, a document class or the application declares
  (such as \<open>MongoUser.DoesNotExist\<close>): its qualified name and its base classes among
  the declared ones. The built-in root \<open>Exception\<close> is a base of all of them and is
  not listed.
\<close>

datatype exc_class = ExcClass string "exc_class list"

text \<open>
  A raised exception: one of the built-in exceptions that the file or the built-ins it
  calls raise, or an instance of a declared class.
\<close>

datatype py_error =
    ImportError string
  | ImproperlyConfigured string
  | ValueError
  | AttributeError
  | NotImplementedError
  | Raised exc_class

text \<open>
  \<open>issubclass(c, d)\<close>: \<open>c\<close> is \<open>d\<close> or one of the bases of \<open>c\<close> is a subclass
  of \<open>d\<close>.
\<close>

fun issubclass :: "exc_class \<Rightarrow> exc_class \<Rightarrow> bool" where
  "issubclass (ExcClass n bases) d = (ExcClass n bases = d \<or> list_ex (\<lambda>b. issubclass b d) bases)"

text \<open>
  \<open>isinstance(e, d)\<close> for a declared class \<open>d\<close>, the test that \<open>except d\<close> makes on
  the exception in flight: the class of \<open>e\<close> is a subclass of \<open>d\<close>. The built-in
  exceptions have built-in bases only, so they are instances of no declared class.
\<close>

definition isinstance :: "py_error \<Rightarrow> exc_class \<Rightarrow> bool" where
  "isinstance e d = (case e of Raised c \<Rightarrow> issubclass c d | _ \<Rightarrow> False)"

subsection \<open>The document layer\<close>

type_synonym document = "(string \<times> string) list"

text \<open>
  A query set of the document layer: the collection it reads, and whether it has been
  emptied by \<open>none()\<close>.
\<close>

record queryset =
  collection :: string
  emptied :: bool

text \<open>
  The document class named by the setting. The manager's docstring requires it to
  define \<open>USERNAME_FIELD\<close> and \<open>REQUIRED_FIELDS\<close>; every document class has its own
  \<open>DoesNotExist\<close> and its default query entry point \<open>objects\<close>.
\<close>

record document_schema =
  USERNAME_FIELD :: string
  REQUIRED_FIELDS :: "string list"
  DoesNotExist :: exc_class
  objects :: queryset

subsection \<open>The relational side\<close>

text \<open>\<open>ugettext_lazy\<close> wraps a message id; the label is translated when it is shown.\<close>

datatype lazy_text = ugettext_lazy string

text \<open>
  \<open>models.CharField(verbose_name, max_length=..., unique=...)\<close>; \<open>unique\<close> is
  \<open>False\<close> when the keyword is not given.
\<close>

record CharField =
  verbose_name :: lazy_text
  max_length :: nat
  unique :: bool

type_synonym row = "(string \<times> string) list"

text \<open>
  The class object of a relational model: the two attributes that
  \<open>contribute_to_class\<close> assigns (absent, \<open>None\<close>, until then), the model's own
  \<open>DoesNotExist\<close>, the fields contributed to it in the order of the contributions, the
  names under which managers were attached, and the rows of its backing table.
\<close>

record django_model =
  dj_USERNAME_FIELD :: "string option"
  dj_REQUIRED_FIELDS :: "string list option"
  dj_DoesNotExist :: exc_class
  local_fields :: "(string \<times> CharField) list"
  managers :: "string list"
  table_rows :: "row list"

type_synonym ref = nat

subsection \<open>Environment and state\<close>

type_synonym py_module = "string \<rightharpoonup> document_schema"

text \<open>
  What the module reads at import time and when it resolves the document class: the
  attributes of \<open>django.conf.settings\<close>, and \<open>importlib.import_module\<close>, which returns
  the module of a dotted name or raises.
\<close>

record environment =
  settings :: "string \<rightharpoonup> string"
  import_module :: "string \<Rightarrow> py_error + py_module"

text \<open>
  The mutable world: the class objects of the relational models, the stored documents of
  each collection, and the document layer's \<open>get\<close> on a query set with positional and
  keyword criteria (a collaborator, taken as it is).
\<close>

record world =
  relational :: "ref \<Rightarrow> django_model"
  stored :: "string \<Rightarrow> document list"
  QuerySet_get :: "queryset \<Rightarrow> string list \<Rightarrow> (string \<times> string) list \<Rightarrow> py_error + document"

text \<open>
  The attributes of a manager instance: \<open>self.model\<close> (\<open>None\<close> until the manager is
  bound) and \<open>self.dj_model\<close> (not set until then).
\<close>

record MongoUserManager =
  model :: "document_schema option"
  dj_model :: "ref option"

subsection \<open>The document layer's query-set operations\<close>

text \<open>
  Modelled from the spec: the document layer's \<open>QuerySet.none()\<close>, which is not part
  of the file. It is the document layer's "empty result set" constructor: the query set
  it returns yields nothing.
\<close>

definition QuerySet_none :: "queryset \<Rightarrow> queryset" where
  "QuerySet_none qs = qs\<lparr>emptied := True\<rparr>"

text \<open>
  Modelled from the spec: the documents a query set of the document layer yields, which
  is not part of the file: none when the query set was emptied, else the stored
  documents of its collection.
\<close>

definition QuerySet_all :: "world \<Rightarrow> queryset \<Rightarrow> document list" where
  "QuerySet_all w qs = (if emptied qs then [] else stored w (collection qs))"

text \<open>
  Modelled from the spec: the size of a query set of the document layer, which is not
  part of the file: the number of documents it yields.
\<close>

definition QuerySet_count :: "world \<Rightarrow> queryset \<Rightarrow> nat" where
  "QuerySet_count w qs = length (QuerySet_all w qs)"

subsection \<open>Python built-ins used by the file\<close>

text \<open>
  \<open>str.rindex(c)\<close>: the highest index at which \<open>c\<close> occurs, \<open>ValueError\<close> when
  it does not occur.
\<close>

fun rindex :: "string \<Rightarrow> char \<Rightarrow> py_error + nat" where
  "rindex [] c = Inl ValueError"
| "rindex (x # xs) c =
     (case rindex xs c of
        Inr i \<Rightarrow> Inr (Suc i)
      | Inl e \<Rightarrow> (if x = c then Inr 0 else Inl e))"

text \<open>\<open>getattr(module, name)\<close>: the attribute, \<open>AttributeError\<close> when it is missing.\<close>

definition getattr :: "py_module \<Rightarrow> string \<Rightarrow> py_error + document_schema" where
  "getattr module name = (case module name of None \<Rightarrow> Inl AttributeError | Some v \<Rightarrow> Inr v)"

subsection \<open>The module constant\<close>

text \<open>
  \<open>MONGOENGINE_USER_DOCUMENT = getattr(settings, 'MONGOENGINE_USER_DOCUMENT',
  'mongoengine.django.auth.User')\<close>
\<close>

definition MONGOENGINE_USER_DOCUMENT :: "environment \<Rightarrow> string" where
  "MONGOENGINE_USER_DOCUMENT env =
     (case settings env ''MONGOENGINE_USER_DOCUMENT'' of
        None \<Rightarrow> ''mongoengine.django.auth.User''
      | Some v \<Rightarrow> v)"

subsection \<open>\<open>_get_user_document\<close>\<close>

definition error_importing :: "string \<Rightarrow> string" where
  "error_importing name =
     ''Error importing '' @ name @ '', please check settings.MONGOENGINE_USER_DOCUMENT''"

text \<open>
  The body of the \<open>try\<close>, then the handler: an \<open>ImportError\<close> raised anywhere in
  the body becomes \<open>ImproperlyConfigured\<close>; every other exception passes through.
\<close>

definition get_user_document :: "environment \<Rightarrow> py_error + document_schema" where
  "get_user_document env =
     (let name = MONGOENGINE_USER_DOCUMENT env;
          body = (case rindex name CHR ''.'' of
                    Inl e \<Rightarrow> Inl e
                  | Inr dot \<Rightarrow>
                      (case import_module env (take dot name) of
                         Inl e \<Rightarrow> Inl e
                       | Inr module \<Rightarrow> getattr module (drop (dot + 1) name)))
      in case body of
           Inl (ImportError _) \<Rightarrow> Inl (ImproperlyConfigured (error_importing name))
         | _ \<Rightarrow> body)"

subsection \<open>\<open>contribute_to_class\<close>\<close>

text \<open>
  The framework's \<open>Manager.contribute_to_class(model, name)\<close>, called through
  \<open>super\<close>: it binds the manager to the model and attaches the manager to the model
  class under \<open>name\<close>. The binding \<open>self.model = model\<close> is what the next line of
  the method copies into \<open>self.dj_model\<close>.
\<close>

definition Manager_contribute_to_class :: "ref \<Rightarrow> string \<Rightarrow> world \<Rightarrow> world" where
  "Manager_contribute_to_class m name w =
     w\<lparr>relational := (relational w)(m := (relational w m)\<lparr>managers := managers (relational w m) @ [name]\<rparr>)\<rparr>"

text \<open>
  The framework's \<open>Field.contribute_to_class(cls, name)\<close>: the field is added to the
  fields of \<open>cls\<close> under \<open>name\<close>, after the fields contributed before.
\<close>

definition Field_contribute_to_class :: "CharField \<Rightarrow> ref \<Rightarrow> string \<Rightarrow> world \<Rightarrow> world" where
  "Field_contribute_to_class field cls name w =
     w\<lparr>relational := (relational w)(cls := (relational w cls)\<lparr>local_fields := local_fields (relational w cls) @ [(name, field)]\<rparr>)\<rparr>"

text \<open>The loop over \<open>self.dj_model.REQUIRED_FIELDS\<close>.\<close>

fun contribute_required :: "string list \<Rightarrow> ref \<Rightarrow> world \<Rightarrow> world" where
  "contribute_required [] cls w = w"
| "contribute_required (name # names) cls w =
     contribute_required names cls
       (Field_contribute_to_class
          \<lparr>verbose_name = ugettext_lazy name, max_length = 30, unique = False\<rparr> cls name w)"

text \<open>
  The assignments \<open>self.dj_model.USERNAME_FIELD = ...\<close> and
  \<open>self.dj_model.REQUIRED_FIELDS = ...\<close> on the class object.
\<close>

definition set_USERNAME_FIELD :: "ref \<Rightarrow> string \<Rightarrow> world \<Rightarrow> world" where
  "set_USERNAME_FIELD cls v w =
     w\<lparr>relational := (relational w)(cls := (relational w cls)\<lparr>dj_USERNAME_FIELD := Some v\<rparr>)\<rparr>"

definition set_REQUIRED_FIELDS :: "ref \<Rightarrow> string list \<Rightarrow> world \<Rightarrow> world" where
  "set_REQUIRED_FIELDS cls v w =
     w\<lparr>relational := (relational w)(cls := (relational w cls)\<lparr>dj_REQUIRED_FIELDS := Some v\<rparr>)\<rparr>"

text \<open>
  The method, line by line. An exception of \<open>_get_user_document\<close> ends it, and
  the method's result is then the exception alone: the class definition that called it
  fails. The attribute reads \<open>self.dj_model.USERNAME_FIELD\<close> and
  \<open>self.dj_model.REQUIRED_FIELDS\<close> read the class object back from the store.
\<close>

definition contribute_to_class ::
  "environment \<Rightarrow> MongoUserManager \<Rightarrow> ref \<Rightarrow> string \<Rightarrow> world \<Rightarrow> py_error + (MongoUserManager \<times> world)" where
  "contribute_to_class env self m name w =
     (let w1 = Manager_contribute_to_class m name w;
          self1 = self\<lparr>dj_model := Some m\<rparr>
      in case get_user_document env of
           Inl e \<Rightarrow> Inl e
         | Inr doc \<Rightarrow>
             (let self2 = self1\<lparr>model := Some doc\<rparr>;
                  w2 = set_USERNAME_FIELD m (USERNAME_FIELD doc) w1;
                  username = \<lparr>verbose_name = ugettext_lazy ''username'', max_length = 30, unique = True\<rparr>
              in case dj_USERNAME_FIELD (relational w2 m) of
                   None \<Rightarrow> Inl AttributeError
                 | Some p \<Rightarrow>
                     (let w3 = Field_contribute_to_class username m p w2;
                          w4 = set_REQUIRED_FIELDS m (REQUIRED_FIELDS doc) w3
                      in case dj_REQUIRED_FIELDS (relational w4 m) of
                           None \<Rightarrow> Inl AttributeError
                         | Some names \<Rightarrow> Inr (self2, contribute_required names m w4))))"

subsection \<open>The query operations\<close>

text \<open>
  Each operation returns its result and the world it leaves. \<open>self.model\<close> is
  \<open>None\<close> on an unbound manager, and an attribute read on \<open>None\<close> raises
  \<open>AttributeError\<close>.
\<close>

definition get_query_set :: "MongoUserManager \<Rightarrow> world \<Rightarrow> (py_error + queryset) \<times> world" where
  "get_query_set self w =
     (case model self of
        None \<Rightarrow> (Inl AttributeError, w)
      | Some doc \<Rightarrow> (Inr (objects doc), w))"

definition get_empty_query_set :: "MongoUserManager \<Rightarrow> world \<Rightarrow> (py_error + queryset) \<times> world" where
  "get_empty_query_set self w =
     (case model self of
        None \<Rightarrow> (Inl AttributeError, w)
      | Some doc \<Rightarrow> (Inr (QuerySet_none (objects doc)), w))"

text \<open>
  \<open>get\<close>: the \<open>try\<close> body, then the handler. The handler's class expression
  \<open>self.model.DoesNotExist\<close> is evaluated only when the body raised; an exception
  matches when it is an instance of that class or of a subclass of it. The handler
  raises an instance of the \<open>DoesNotExist\<close> that it reads from \<open>self.dj_model\<close>.
\<close>

definition get ::
  "MongoUserManager \<Rightarrow> string list \<Rightarrow> (string \<times> string) list \<Rightarrow> world \<Rightarrow> (py_error + document) \<times> world" where
  "get self args kwargs w =
     (let (qs, w1) = get_query_set self w;
          body = (case qs of Inl e \<Rightarrow> Inl e | Inr q \<Rightarrow> QuerySet_get w1 q args kwargs)
      in case body of
           Inr d \<Rightarrow> (Inr d, w1)
         | Inl e \<Rightarrow>
             (case model self of
                None \<Rightarrow> (Inl AttributeError, w1)
              | Some doc \<Rightarrow>
                  (if isinstance e (DoesNotExist doc)
                   then (case dj_model self of
                           None \<Rightarrow> (Inl AttributeError, w1)
                         | Some m \<Rightarrow> (Inl (Raised (dj_DoesNotExist (relational w1 m))), w1))
                   else (Inl e, w1))))"

text \<open>The property \<open>db\<close>: \<open>raise NotImplementedError\<close>.\<close>

definition db :: "MongoUserManager \<Rightarrow> py_error + string" where
  "db self = Inl NotImplementedError"

subsection \<open>The two kinds of field that \<open>contribute_to_class\<close> declares\<close>

definition username_field :: CharField where
  "username_field = \<lparr>verbose_name = ugettext_lazy ''username'', max_length = 30, unique = True\<rparr>"

definition plain_field :: "string \<Rightarrow> string \<times> CharField" where
  "plain_field n = (n, \<lparr>verbose_name = ugettext_lazy n, max_length = 30, unique = False\<rparr>)"

section \<open>Example configurations\<close>

text \<open>
  A document class with primary field \<open>username\<close> and one required field, the module
  that holds it under the default name, and the settings that do not name a document
  class.
\<close>

definition user_document :: document_schema where
  "user_document =
     \<lparr>USERNAME_FIELD = ''username'', REQUIRED_FIELDS = [''email''],
      DoesNotExist = ExcClass ''User.DoesNotExist'' [],
      objects = \<lparr>collection = ''user'', emptied = False\<rparr>\<rparr>"

definition auth_module :: py_module where
  "auth_module = [''User'' \<mapsto> user_document]"

definition default_env :: environment where
  "default_env =
     \<lparr>settings = Map.empty,
      import_module = (\<lambda>n. if n = ''mongoengine.django.auth'' then Inr auth_module else Inl (ImportError n))\<rparr>"

text \<open>Settings naming a module that cannot be imported.\<close>

definition broken_env :: environment where
  "broken_env =
     \<lparr>settings = [''MONGOENGINE_USER_DOCUMENT'' \<mapsto> ''nosuch.Account''],
      import_module = (\<lambda>n. Inl (ImportError n))\<rparr>"

text \<open>Settings without a separator, and settings naming an attribute the module lacks.\<close>

definition undotted_env :: environment where
  "undotted_env =
     \<lparr>settings = [''MONGOENGINE_USER_DOCUMENT'' \<mapsto> ''User''],
      import_module = (\<lambda>n. Inl (ImportError n))\<rparr>"

definition missing_attr_env :: environment where
  "missing_attr_env =
     \<lparr>settings = [''MONGOENGINE_USER_DOCUMENT'' \<mapsto> ''mongoengine.django.auth.Account''],
      import_module = (\<lambda>n. if n = ''mongoengine.django.auth'' then Inr auth_module else Inl (ImportError n))\<rparr>"



text \<open>
  A relational model class before any manager is attached, a world of such classes and
  empty collections, and a manager before and after it is bound to the class at
  reference \<open>0\<close>.
\<close>

definition blank_model :: django_model where
  "blank_model =
     \<lparr>dj_USERNAME_FIELD = None, dj_REQUIRED_FIELDS = None,
      dj_DoesNotExist = ExcClass ''MongoUser.DoesNotExist'' [],
      local_fields = [], managers = [], table_rows = []\<rparr>"

definition empty_world :: world where
  "empty_world =
     \<lparr>relational = (\<lambda>r. blank_model), stored = (\<lambda>c. []),
      QuerySet_get = (\<lambda>qs args kwargs. Inl (Raised (ExcClass ''User.DoesNotExist'' [])))\<rparr>"

definition unbound_manager :: MongoUserManager where
  "unbound_manager = \<lparr>model = None, dj_model = None\<rparr>"

definition bound_manager :: MongoUserManager where
  "bound_manager = \<lparr>model = Some user_document, dj_model = Some 0\<rparr>"

definition bound_world :: world where
  "bound_world =
     \<lparr>relational = (\<lambda>r. blank_model)
        (0 := \<lparr>dj_USERNAME_FIELD = Some ''username'', dj_REQUIRED_FIELDS = Some [''email''],
               dj_DoesNotExist = ExcClass ''MongoUser.DoesNotExist'' [],
               local_fields = [(''username'', \<lparr>verbose_name = ugettext_lazy ''username'', max_length = 30, unique = True\<rparr>),
                               (''email'', \<lparr>verbose_name = ugettext_lazy ''email'', max_length = 30, unique = False\<rparr>)],
               managers = [''objects''], table_rows = []\<rparr>),
      stored = (\<lambda>c. []),
      QuerySet_get = (\<lambda>qs args kwargs. Inl (Raised (ExcClass ''User.DoesNotExist'' [])))\<rparr>"

text \<open>The same world with two stored documents in every collection.\<close>

definition stocked_world :: world where
  "stocked_world = bound_world\<lparr>stored := (\<lambda>c. [[(''username'', ''ann'')], [(''username'', ''bob'')]])\<rparr>"

text \<open>
  The same world where the document layer's \<open>get\<close> raises an instance of a subclass
  of \<open>User.DoesNotExist\<close>, and one where it raises an exception of another class.
\<close>

definition subclass_world :: world where
  "subclass_world =
     bound_world\<lparr>QuerySet_get := (\<lambda>qs args kwargs.
        Inl (Raised (ExcClass ''SubUser.DoesNotExist'' [ExcClass ''User.DoesNotExist'' []])))\<rparr>"

definition failing_world :: world where
  "failing_world =
     bound_world\<lparr>QuerySet_get := (\<lambda>qs args kwargs.
        Inl (Raised (ExcClass ''MultipleObjectsReturned'' [])))\<rparr>"

text \<open>
  The same world again, except that the relational model class at reference \<open>0\<close>
  carries another \<open>DoesNotExist\<close>.
\<close>

definition renamed_world :: world where
  "renamed_world =
     bound_world\<lparr>relational := (relational bound_world)
        (0 := (relational bound_world 0)\<lparr>dj_DoesNotExist := ExcClass ''Other.DoesNotExist'' []\<rparr>)\<rparr>"

section \<open>Properties\<close>

subsection \<open>Exception classes\<close>

lemma issubclass_refl: "issubclass c c"
  by (cases c) simp

lemma isinstance_own_class: "isinstance (Raised c) c"
  by (simp add: isinstance_def issubclass_refl)

subsection \<open>Splitting the configured name\<close>

lemma rindex_append_last:
  "c \<notin> set a \<Longrightarrow> rindex (m @ c # a) c = Inr (length m)"
proof (induction m)
  case Nil
  have "rindex a c = Inl ValueError" using Nil
    by (induction a) auto
  then show ?case by simp
next
  case (Cons x m)
  then show ?case by simp
qed

lemma rindex_not_found: "c \<notin> set s \<Longrightarrow> rindex s c = Inl ValueError"
  by (induction s) auto

lemma get_user_document_split:
  assumes "MONGOENGINE_USER_DOCUMENT env = m @ ''.'' @ a" and "CHR ''.'' \<notin> set a"
  shows "get_user_document env =
           (case import_module env m of
              Inr module \<Rightarrow> getattr module a
            | Inl (ImportError x) \<Rightarrow> Inl (ImproperlyConfigured (error_importing (m @ ''.'' @ a)))
            | Inl e \<Rightarrow> Inl e)"
proof -
  have r: "rindex (m @ ''.'' @ a) CHR ''.'' = Inr (length m)"
    using rindex_append_last [OF assms(2), of m] by simp
  show ?thesis
    unfolding get_user_document_def Let_def assms(1) r
    by (simp add: getattr_def split: sum.splits py_error.splits option.splits)
qed

lemma get_user_document_no_separator:
  assumes "CHR ''.'' \<notin> set (MONGOENGINE_USER_DOCUMENT env)"
  shows "get_user_document env = Inl ValueError"
  unfolding get_user_document_def Let_def rindex_not_found [OF assms] by simp

subsection \<open>What \<open>contribute_to_class\<close> leaves behind\<close>

lemma contribute_required_other:
  "cls' \<noteq> cls \<Longrightarrow> relational (contribute_required names cls w) cls' = relational w cls'"
  by (induction names arbitrary: w) (simp_all add: Field_contribute_to_class_def)

lemma contribute_required_relational:
  "relational (contribute_required names cls w) cls =
     (relational w cls)\<lparr>local_fields := local_fields (relational w cls) @ map plain_field names\<rparr>"
  by (induction names arbitrary: w) (simp_all add: Field_contribute_to_class_def plain_field_def)

lemma contribute_to_class_resolved:
  assumes "get_user_document env = Inr doc"
  shows "\<exists>w'. contribute_to_class env self m name w = Inr (self\<lparr>dj_model := Some m, model := Some doc\<rparr>, w')
     \<and> relational w' m = (relational w m)
          \<lparr>dj_USERNAME_FIELD := Some (USERNAME_FIELD doc),
           dj_REQUIRED_FIELDS := Some (REQUIRED_FIELDS doc),
           local_fields := local_fields (relational w m) @
              (USERNAME_FIELD doc, username_field) # map plain_field (REQUIRED_FIELDS doc),
           managers := managers (relational w m) @ [name]\<rparr>"
  unfolding contribute_to_class_def Let_def assms
  by (simp add: set_USERNAME_FIELD_def set_REQUIRED_FIELDS_def Field_contribute_to_class_def
      Manager_contribute_to_class_def contribute_required_relational username_field_def)

lemma contribute_to_class_failed:
  assumes "get_user_document env = Inl e"
  shows "contribute_to_class env self m name w = Inl e"
  unfolding contribute_to_class_def Let_def assms by simp

lemma contribute_to_class_bound:
  assumes "contribute_to_class env self0 m name w0 = Inr (self, w1)"
  shows "\<exists>doc. get_user_document env = Inr doc \<and> model self = Some doc \<and> dj_model self = Some m"
proof (cases "get_user_document env")
  case (Inl e)
  then show ?thesis using assms contribute_to_class_failed [OF Inl] by simp
next
  case (Inr doc)
  then show ?thesis using assms contribute_to_class_resolved [OF Inr, of self0 m name w0] by auto
qed

text \<open>The example configurations resolve, and the default one binds the manager.\<close>

lemma default_env_resolves: "get_user_document default_env = Inr user_document"
  by (simp add: get_user_document_def MONGOENGINE_USER_DOCUMENT_def default_env_def
      getattr_def auth_module_def)


lemma default_env_binds:
  "contribute_to_class default_env unbound_manager 0 ''objects'' empty_world
     = Inr (bound_manager, bound_world)"
  unfolding contribute_to_class_def Let_def default_env_resolves
  by (simp add: set_USERNAME_FIELD_def set_REQUIRED_FIELDS_def Field_contribute_to_class_def
      Manager_contribute_to_class_def unbound_manager_def bound_manager_def empty_world_def
      bound_world_def blank_model_def user_document_def)

subsection \<open>The query operations\<close>

text \<open>
  C1. When the manager is bound to the document class \<open>doc\<close> and to the relational
  model at \<open>m\<close>, and the document layer's \<open>get\<close> on \<open>doc.objects\<close> raises, for the
  given criteria, an exception that is an instance of \<open>doc.DoesNotExist\<close> (of that
  class or of a subclass of it), the manager's \<open>get\<close> raises the \<open>DoesNotExist\<close> of
  the relational model: the exception it raises is an instance of the class read from
  \<open>self.dj_model\<close>, not the exception the document layer raised. In particular this is
  so when the document layer raises \<open>doc.DoesNotExist\<close> itself.
\<close>

theorem get_translates_not_found:
  assumes "model self = Some doc" and "dj_model self = Some m"
    and "QuerySet_get w (objects doc) args kwargs = Inl e"
    and "isinstance e (DoesNotExist doc)"
  shows "get self args kwargs w = (Inl (Raised (dj_DoesNotExist (relational w m))), w)"
  using assms by (simp add: get_def get_query_set_def)

theorem get_translates_not_found_witness:
  "model bound_manager = Some user_document \<and> dj_model bound_manager = Some 0
   \<and> QuerySet_get bound_world (objects user_document) [] [(''username'', ''ann'')]
        = Inl (Raised (DoesNotExist user_document))
   \<and> isinstance (Raised (DoesNotExist user_document)) (DoesNotExist user_document)
   \<and> get bound_manager [] [(''username'', ''ann'')] bound_world
        = (Inl (Raised (ExcClass ''MongoUser.DoesNotExist'' [])), bound_world)
   \<and> QuerySet_get subclass_world (objects user_document) [] [(''username'', ''ann'')]
        = Inl (Raised (ExcClass ''SubUser.DoesNotExist'' [ExcClass ''User.DoesNotExist'' []]))
   \<and> isinstance (Raised (ExcClass ''SubUser.DoesNotExist'' [ExcClass ''User.DoesNotExist'' []]))
        (DoesNotExist user_document)
   \<and> get bound_manager [] [(''username'', ''ann'')] subclass_world
        = (Inl (Raised (ExcClass ''MongoUser.DoesNotExist'' [])), subclass_world)"
proof -
  have a: "model bound_manager = Some user_document" by (simp add: bound_manager_def)
  have b: "dj_model bound_manager = Some 0" by (simp add: bound_manager_def)
  have c: "QuerySet_get bound_world (objects user_document) [] [(''username'', ''ann'')]
        = Inl (Raised (DoesNotExist user_document))"
    by (simp add: bound_world_def user_document_def)
  have i: "isinstance (Raised (DoesNotExist user_document)) (DoesNotExist user_document)"
    by (rule isinstance_own_class)
  have d: "dj_DoesNotExist (relational bound_world 0) = ExcClass ''MongoUser.DoesNotExist'' []"
    by (simp add: bound_world_def)
  have c': "QuerySet_get subclass_world (objects user_document) [] [(''username'', ''ann'')]
        = Inl (Raised (ExcClass ''SubUser.DoesNotExist'' [ExcClass ''User.DoesNotExist'' []]))"
    by (simp add: subclass_world_def)
  have i': "isinstance (Raised (ExcClass ''SubUser.DoesNotExist'' [ExcClass ''User.DoesNotExist'' []]))
        (DoesNotExist user_document)"
    by (simp add: isinstance_def user_document_def)
  have d': "dj_DoesNotExist (relational subclass_world 0) = ExcClass ''MongoUser.DoesNotExist'' []"
    by (simp add: subclass_world_def bound_world_def)
  have g: "get bound_manager [] [(''username'', ''ann'')] bound_world
        = (Inl (Raised (ExcClass ''MongoUser.DoesNotExist'' [])), bound_world)"
    using get_translates_not_found [OF a b c i] unfolding d .
  have g': "get bound_manager [] [(''username'', ''ann'')] subclass_world
        = (Inl (Raised (ExcClass ''MongoUser.DoesNotExist'' [])), subclass_world)"
    using get_translates_not_found [OF a b c' i'] unfolding d' .
  show ?thesis by (intro conjI; fact)
qed

text \<open>
  C7. Reading the property \<open>db\<close> raises \<open>NotImplementedError\<close> on every manager,
  bound or not; it never yields a value.
\<close>

theorem db_raises_not_implemented:
  "db self = Inl NotImplementedError \<and> (\<forall>v. db self \<noteq> Inr v)"
  by (simp add: db_def)

text \<open>
  C8. On a manager bound to the document class \<open>doc\<close>, \<open>get_empty_query_set\<close> returns
  \<open>doc.objects.none()\<close>, the empty result set of the document layer's own query
  interface, and leaves the world as it is; that query set yields no document and has
  size zero in every world, whatever the collections hold.
\<close>

theorem get_empty_query_set_is_empty:
  assumes "model self = Some doc"
  shows "get_empty_query_set self w = (Inr (QuerySet_none (objects doc)), w)
         \<and> QuerySet_all w' (QuerySet_none (objects doc)) = []
         \<and> QuerySet_count w' (QuerySet_none (objects doc)) = 0"
  using assms
  by (simp add: get_empty_query_set_def QuerySet_count_def QuerySet_all_def QuerySet_none_def)

theorem get_empty_query_set_is_empty_witness:
  "model bound_manager = Some user_document
   \<and> QuerySet_count stocked_world (objects user_document) = 2
   \<and> get_empty_query_set bound_manager stocked_world
        = (Inr \<lparr>collection = ''user'', emptied = True\<rparr>, stocked_world)
   \<and> QuerySet_count stocked_world \<lparr>collection = ''user'', emptied = True\<rparr> = 0"
proof -
  have a: "model bound_manager = Some user_document" by (simp add: bound_manager_def)
  have n: "QuerySet_none (objects user_document) = \<lparr>collection = ''user'', emptied = True\<rparr>"
    by (simp add: QuerySet_none_def user_document_def)
  have s: "QuerySet_count stocked_world (objects user_document) = 2"
    by (simp add: QuerySet_count_def QuerySet_all_def stocked_world_def user_document_def)
  show ?thesis
    using a s get_empty_query_set_is_empty [OF a, of stocked_world stocked_world] n by simp
qed

subsection \<open>Resolving the document class\<close>

text \<open>
  C5. A configured name that contains a separator splits at its last separator into a
  module path \<open>m\<close> and a name \<open>a\<close> without separator, and for that split
  \<open>_get_user_document\<close> imports the module named \<open>m\<close> and returns its attribute
  named \<open>a\<close>. What the import or the attribute lookup raises is the result of the
  method, an \<open>ImportError\<close> as \<open>ImproperlyConfigured\<close>.
\<close>

theorem get_user_document_splits_at_last_separator:
  assumes "CHR ''.'' \<in> set (MONGOENGINE_USER_DOCUMENT env)"
  shows "(\<exists>m a. MONGOENGINE_USER_DOCUMENT env = m @ ''.'' @ a \<and> CHR ''.'' \<notin> set a)
         \<and> (\<forall>m a. MONGOENGINE_USER_DOCUMENT env = m @ ''.'' @ a \<and> CHR ''.'' \<notin> set a \<longrightarrow>
               get_user_document env =
                 (case import_module env m of
                    Inr module \<Rightarrow> getattr module a
                  | Inl (ImportError x) \<Rightarrow>
                      Inl (ImproperlyConfigured (error_importing (MONGOENGINE_USER_DOCUMENT env)))
                  | Inl e \<Rightarrow> Inl e))"
proof (rule conjI)
  from split_list_last [OF assms] obtain m a
    where s: "MONGOENGINE_USER_DOCUMENT env = m @ CHR ''.'' # a" and n: "CHR ''.'' \<notin> set a"
    by blast
  from s have "MONGOENGINE_USER_DOCUMENT env = m @ ''.'' @ a" by simp
  with n show "\<exists>m a. MONGOENGINE_USER_DOCUMENT env = m @ ''.'' @ a \<and> CHR ''.'' \<notin> set a"
    by blast
next
  show "\<forall>m a. MONGOENGINE_USER_DOCUMENT env = m @ ''.'' @ a \<and> CHR ''.'' \<notin> set a \<longrightarrow>
               get_user_document env =
                 (case import_module env m of
                    Inr module \<Rightarrow> getattr module a
                  | Inl (ImportError x) \<Rightarrow>
                      Inl (ImproperlyConfigured (error_importing (MONGOENGINE_USER_DOCUMENT env)))
                  | Inl e \<Rightarrow> Inl e)"
  proof (intro allI impI)
    fix m a
    assume h: "MONGOENGINE_USER_DOCUMENT env = m @ ''.'' @ a \<and> CHR ''.'' \<notin> set a"
    then have s: "MONGOENGINE_USER_DOCUMENT env = m @ ''.'' @ a" and n: "CHR ''.'' \<notin> set a"
      by simp_all
    show "get_user_document env =
                 (case import_module env m of
                    Inr module \<Rightarrow> getattr module a
                  | Inl (ImportError x) \<Rightarrow>
                      Inl (ImproperlyConfigured (error_importing (MONGOENGINE_USER_DOCUMENT env)))
                  | Inl e \<Rightarrow> Inl e)"
      unfolding get_user_document_split [OF s n] s by (rule refl)
  qed
qed

theorem get_user_document_splits_at_last_separator_witness:
  "CHR ''.'' \<in> set (MONGOENGINE_USER_DOCUMENT default_env)
   \<and> MONGOENGINE_USER_DOCUMENT default_env = ''mongoengine.django.auth'' @ ''.'' @ ''User''
   \<and> CHR ''.'' \<notin> set ''User''
   \<and> import_module default_env ''mongoengine.django.auth'' = Inr auth_module
   \<and> get_user_document default_env = getattr auth_module ''User''
   \<and> get_user_document default_env = Inr user_document"
proof -
  have n: "MONGOENGINE_USER_DOCUMENT default_env = ''mongoengine.django.auth'' @ ''.'' @ ''User''"
    by (simp add: MONGOENGINE_USER_DOCUMENT_def default_env_def)
  have h: "CHR ''.'' \<in> set (MONGOENGINE_USER_DOCUMENT default_env)"
    unfolding n by simp
  have d: "CHR ''.'' \<notin> set ''User''" by simp
  have i: "import_module default_env ''mongoengine.django.auth'' = Inr auth_module"
    by (simp add: default_env_def)
  have g: "get_user_document default_env = getattr auth_module ''User''"
    using get_user_document_splits_at_last_separator [OF h, THEN conjunct2, rule_format, OF conjI, OF n d]
    unfolding i by simp
  have r: "get_user_document default_env = Inr user_document"
    unfolding g by (simp add: getattr_def auth_module_def)
  show ?thesis by (intro conjI; fact)
qed

text \<open>
  C3. When the module segment of the configured name cannot be imported (the import
  raises \<open>ImportError\<close>), \<open>_get_user_document\<close> raises \<open>ImproperlyConfigured\<close> with
  a message that contains the configured name, which is not the \<open>AttributeError\<close> of
  a missing attribute; \<open>contribute_to_class\<close>, and with it the class definition,
  fails with the same error.
\<close>

theorem unimportable_module_is_configuration_error:
  assumes "MONGOENGINE_USER_DOCUMENT env = m @ ''.'' @ a" and "CHR ''.'' \<notin> set a"
    and "import_module env m = Inl (ImportError msg)"
  shows "get_user_document env =
           Inl (ImproperlyConfigured
                  (''Error importing '' @ MONGOENGINE_USER_DOCUMENT env @
                   '', please check settings.MONGOENGINE_USER_DOCUMENT''))
         \<and> get_user_document env \<noteq> Inl AttributeError
         \<and> contribute_to_class env self cls name w = Inl (ImproperlyConfigured
                  (''Error importing '' @ MONGOENGINE_USER_DOCUMENT env @
                   '', please check settings.MONGOENGINE_USER_DOCUMENT''))"
proof -
  have g: "get_user_document env =
           Inl (ImproperlyConfigured
                  (''Error importing '' @ MONGOENGINE_USER_DOCUMENT env @
                   '', please check settings.MONGOENGINE_USER_DOCUMENT''))"
    using get_user_document_split [OF assms(1,2)] assms(1,3)
    by (simp add: error_importing_def)
  show ?thesis
    using g contribute_to_class_failed [OF g] by simp
qed

theorem unimportable_module_is_configuration_error_witness:
  "MONGOENGINE_USER_DOCUMENT broken_env = ''nosuch'' @ ''.'' @ ''Account''
   \<and> CHR ''.'' \<notin> set ''Account''
   \<and> import_module broken_env ''nosuch'' = Inl (ImportError ''nosuch'')
   \<and> get_user_document broken_env =
        Inl (ImproperlyConfigured
          ''Error importing nosuch.Account, please check settings.MONGOENGINE_USER_DOCUMENT'')
   \<and> contribute_to_class broken_env unbound_manager 0 ''objects'' empty_world =
        Inl (ImproperlyConfigured
          ''Error importing nosuch.Account, please check settings.MONGOENGINE_USER_DOCUMENT'')"
proof -
  have n: "MONGOENGINE_USER_DOCUMENT broken_env = ''nosuch'' @ ''.'' @ ''Account''"
    by (simp add: MONGOENGINE_USER_DOCUMENT_def broken_env_def)
  have d: "CHR ''.'' \<notin> set ''Account''" by simp
  have i: "import_module broken_env ''nosuch'' = Inl (ImportError ''nosuch'')"
    by (simp add: broken_env_def)
  have n': "MONGOENGINE_USER_DOCUMENT broken_env = ''nosuch.Account''" using n by simp
  show ?thesis
    using n d i
      unimportable_module_is_configuration_error [OF n d i, of unbound_manager 0 "''objects''" empty_world]
    unfolding n' by simp
qed

text \<open>
  C6. A configured name without separator makes \<open>_get_user_document\<close> raise the
  \<open>ValueError\<close> of \<open>rindex\<close>, and a name whose module loads but lacks the named
  attribute makes it raise the \<open>AttributeError\<close> of \<open>getattr\<close>; in neither case is
  the exception an \<open>ImproperlyConfigured\<close>.
\<close>

theorem other_faults_propagate:
  "(CHR ''.'' \<notin> set (MONGOENGINE_USER_DOCUMENT env) \<longrightarrow>
      get_user_document env = Inl ValueError
      \<and> (\<forall>t. get_user_document env \<noteq> Inl (ImproperlyConfigured t)))
   \<and> (MONGOENGINE_USER_DOCUMENT env = m @ ''.'' @ a \<and> CHR ''.'' \<notin> set a
        \<and> import_module env m = Inr module \<and> module a = None \<longrightarrow>
      get_user_document env = Inl AttributeError
      \<and> (\<forall>t. get_user_document env \<noteq> Inl (ImproperlyConfigured t)))"
proof (rule conjI; rule impI)
  assume "CHR ''.'' \<notin> set (MONGOENGINE_USER_DOCUMENT env)"
  then show "get_user_document env = Inl ValueError \<and> (\<forall>t. get_user_document env \<noteq> Inl (ImproperlyConfigured t))"
    using get_user_document_no_separator by simp
next
  assume h: "MONGOENGINE_USER_DOCUMENT env = m @ ''.'' @ a \<and> CHR ''.'' \<notin> set a
        \<and> import_module env m = Inr module \<and> module a = None"
  then have "get_user_document env = Inl AttributeError"
    using get_user_document_split [of env m a] by (simp add: getattr_def)
  then show "get_user_document env = Inl AttributeError \<and> (\<forall>t. get_user_document env \<noteq> Inl (ImproperlyConfigured t))"
    by simp
qed

theorem other_faults_propagate_witness:
  "CHR ''.'' \<notin> set (MONGOENGINE_USER_DOCUMENT undotted_env)
   \<and> get_user_document undotted_env = Inl ValueError
   \<and> MONGOENGINE_USER_DOCUMENT missing_attr_env = ''mongoengine.django.auth'' @ ''.'' @ ''Account''
   \<and> CHR ''.'' \<notin> set ''Account''
   \<and> import_module missing_attr_env ''mongoengine.django.auth'' = Inr auth_module
   \<and> auth_module ''Account'' = None
   \<and> get_user_document missing_attr_env = Inl AttributeError"
proof -
  have u: "CHR ''.'' \<notin> set (MONGOENGINE_USER_DOCUMENT undotted_env)"
    by (simp add: MONGOENGINE_USER_DOCUMENT_def undotted_env_def)
  have n: "MONGOENGINE_USER_DOCUMENT missing_attr_env = ''mongoengine.django.auth'' @ ''.'' @ ''Account''"
    by (simp add: MONGOENGINE_USER_DOCUMENT_def missing_attr_env_def)
  have d: "CHR ''.'' \<notin> set ''Account''" by simp
  have i: "import_module missing_attr_env ''mongoengine.django.auth'' = Inr auth_module"
    by (simp add: missing_attr_env_def)
  have a: "auth_module ''Account'' = None" by (simp add: auth_module_def)
  have 1: "get_user_document undotted_env = Inl ValueError"
    using other_faults_propagate [of undotted_env, THEN conjunct1, rule_format, OF u]
    by (rule conjunct1)
  have 2: "get_user_document missing_attr_env = Inl AttributeError"
    using other_faults_propagate [of missing_attr_env "''mongoengine.django.auth''" "''Account''" auth_module,
        THEN conjunct2, rule_format, OF conjI, OF n conjI, OF d conjI, OF i a]
    by (rule conjunct1)
  show ?thesis by (intro conjI; fact)
qed

subsection \<open>Projecting the fields\<close>

text \<open>
  C2. When the configured name resolves to the document class \<open>doc\<close>,
  \<open>contribute_to_class\<close> on a relational model succeeds and leaves the model with
  \<open>USERNAME_FIELD\<close> equal to the primary field name of \<open>doc\<close>, a unique text field of
  maximal length 30 contributed under that name, \<open>REQUIRED_FIELDS\<close> equal to the whole
  required-field list of \<open>doc\<close>, and for every name of that list a text field of maximal
  length 30, labelled with the name, contributed under the name. The fields it
  contributes are exactly these, in this order, after the fields the model had.
\<close>

theorem contribute_to_class_projects_fields:
  assumes "get_user_document env = Inr doc"
  shows "\<exists>self' w'. contribute_to_class env self cls name w = Inr (self', w')
     \<and> dj_USERNAME_FIELD (relational w' cls) = Some (USERNAME_FIELD doc)
     \<and> (USERNAME_FIELD doc,
          \<lparr>verbose_name = ugettext_lazy ''username'', max_length = 30, unique = True\<rparr>)
           \<in> set (local_fields (relational w' cls))
     \<and> dj_REQUIRED_FIELDS (relational w' cls) = Some (REQUIRED_FIELDS doc)
     \<and> (\<forall>n \<in> set (REQUIRED_FIELDS doc).
           (n, \<lparr>verbose_name = ugettext_lazy n, max_length = 30, unique = False\<rparr>)
             \<in> set (local_fields (relational w' cls)))
     \<and> local_fields (relational w' cls) =
         local_fields (relational w cls) @
           (USERNAME_FIELD doc,
             \<lparr>verbose_name = ugettext_lazy ''username'', max_length = 30, unique = True\<rparr>)
           # map (\<lambda>n. (n, \<lparr>verbose_name = ugettext_lazy n, max_length = 30, unique = False\<rparr>))
               (REQUIRED_FIELDS doc)"
proof -
  from contribute_to_class_resolved [OF assms, of self cls name w] obtain w'
    where c: "contribute_to_class env self cls name w = Inr (self\<lparr>dj_model := Some cls, model := Some doc\<rparr>, w')"
      and r: "relational w' cls = (relational w cls)
          \<lparr>dj_USERNAME_FIELD := Some (USERNAME_FIELD doc),
           dj_REQUIRED_FIELDS := Some (REQUIRED_FIELDS doc),
           local_fields := local_fields (relational w cls) @
              (USERNAME_FIELD doc, username_field) # map plain_field (REQUIRED_FIELDS doc),
           managers := managers (relational w cls) @ [name]\<rparr>"
    by blast
  have pf: "plain_field = (\<lambda>n. (n, \<lparr>verbose_name = ugettext_lazy n, max_length = 30, unique = False\<rparr>))"
    by (rule ext) (simp add: plain_field_def)
  have 1: "dj_USERNAME_FIELD (relational w' cls) = Some (USERNAME_FIELD doc)"
    unfolding r by simp
  have 2: "dj_REQUIRED_FIELDS (relational w' cls) = Some (REQUIRED_FIELDS doc)"
    unfolding r by simp
  have 3: "local_fields (relational w' cls) =
         local_fields (relational w cls) @
           (USERNAME_FIELD doc,
             \<lparr>verbose_name = ugettext_lazy ''username'', max_length = 30, unique = True\<rparr>)
           # map (\<lambda>n. (n, \<lparr>verbose_name = ugettext_lazy n, max_length = 30, unique = False\<rparr>))
               (REQUIRED_FIELDS doc)"
    unfolding r pf [symmetric] by (simp add: username_field_def)
  have 4: "(USERNAME_FIELD doc,
          \<lparr>verbose_name = ugettext_lazy ''username'', max_length = 30, unique = True\<rparr>)
           \<in> set (local_fields (relational w' cls))"
    unfolding 3 by simp
  have 5: "\<forall>n \<in> set (REQUIRED_FIELDS doc).
           (n, \<lparr>verbose_name = ugettext_lazy n, max_length = 30, unique = False\<rparr>)
             \<in> set (local_fields (relational w' cls))"
    unfolding 3 by simp
  show ?thesis using c 1 2 3 4 5 by blast
qed

theorem contribute_to_class_projects_fields_witness:
  "get_user_document default_env = Inr user_document
   \<and> ''email'' \<in> set (REQUIRED_FIELDS user_document)
   \<and> (\<exists>self' w'. contribute_to_class default_env unbound_manager 0 ''objects'' empty_world = Inr (self', w')
        \<and> dj_USERNAME_FIELD (relational w' 0) = Some ''username''
        \<and> dj_REQUIRED_FIELDS (relational w' 0) = Some [''email'']
        \<and> local_fields (relational w' 0) =
            [(''username'', \<lparr>verbose_name = ugettext_lazy ''username'', max_length = 30, unique = True\<rparr>),
             (''email'', \<lparr>verbose_name = ugettext_lazy ''email'', max_length = 30, unique = False\<rparr>)]
        \<and> (''email'', \<lparr>verbose_name = ugettext_lazy ''email'', max_length = 30, unique = False\<rparr>)
             \<in> set (local_fields (relational w' 0)))"
proof -
  have g: "get_user_document default_env = Inr user_document"
    by (rule default_env_resolves)
  have e: "''email'' \<in> set (REQUIRED_FIELDS user_document)"
    by (simp add: user_document_def)
  have old: "local_fields (relational empty_world 0) = []"
    by (simp add: empty_world_def blank_model_def)
  have u: "USERNAME_FIELD user_document = ''username''"
    and q: "REQUIRED_FIELDS user_document = [''email'']"
    by (simp_all add: user_document_def)
  from contribute_to_class_projects_fields [OF g, of unbound_manager 0 "''objects''" empty_world]
  obtain self' w' where
    c: "contribute_to_class default_env unbound_manager 0 ''objects'' empty_world = Inr (self', w')"
    and 1: "dj_USERNAME_FIELD (relational w' 0) = Some (USERNAME_FIELD user_document)"
    and 2: "dj_REQUIRED_FIELDS (relational w' 0) = Some (REQUIRED_FIELDS user_document)"
    and 5: "\<forall>n \<in> set (REQUIRED_FIELDS user_document).
           (n, \<lparr>verbose_name = ugettext_lazy n, max_length = 30, unique = False\<rparr>)
             \<in> set (local_fields (relational w' 0))"
    and 3: "local_fields (relational w' 0) =
         local_fields (relational empty_world 0) @
           (USERNAME_FIELD user_document,
             \<lparr>verbose_name = ugettext_lazy ''username'', max_length = 30, unique = True\<rparr>)
           # map (\<lambda>n. (n, \<lparr>verbose_name = ugettext_lazy n, max_length = 30, unique = False\<rparr>))
               (REQUIRED_FIELDS user_document)"
    by blast
  have p1: "dj_USERNAME_FIELD (relational w' 0) = Some ''username''"
    using 1 unfolding u .
  have p2: "dj_REQUIRED_FIELDS (relational w' 0) = Some [''email'']"
    using 2 unfolding q .
  have p3: "local_fields (relational w' 0) =
            [(''username'', \<lparr>verbose_name = ugettext_lazy ''username'', max_length = 30, unique = True\<rparr>),
             (''email'', \<lparr>verbose_name = ugettext_lazy ''email'', max_length = 30, unique = False\<rparr>)]"
    using 3 unfolding u q old by simp
  have p5: "(''email'', \<lparr>verbose_name = ugettext_lazy ''email'', max_length = 30, unique = False\<rparr>)
             \<in> set (local_fields (relational w' 0))"
    using 5 e by (rule bspec)
  from c p1 p2 p3 p5 have
    "\<exists>self' w'. contribute_to_class default_env unbound_manager 0 ''objects'' empty_world = Inr (self', w')
        \<and> dj_USERNAME_FIELD (relational w' 0) = Some ''username''
        \<and> dj_REQUIRED_FIELDS (relational w' 0) = Some [''email'']
        \<and> local_fields (relational w' 0) =
            [(''username'', \<lparr>verbose_name = ugettext_lazy ''username'', max_length = 30, unique = True\<rparr>),
             (''email'', \<lparr>verbose_name = ugettext_lazy ''email'', max_length = 30, unique = False\<rparr>)]
        \<and> (''email'', \<lparr>verbose_name = ugettext_lazy ''email'', max_length = 30, unique = False\<rparr>)
             \<in> set (local_fields (relational w' 0))"
    by (intro exI conjI)
  with g e show ?thesis by (intro conjI)
qed



subsection \<open>The default document class\<close>

text \<open>
  C9. When the settings do not define \<open>MONGOENGINE_USER_DOCUMENT\<close>, the module constant
  is the default name \<open>mongoengine.django.auth.User\<close>, and where the module
  \<open>mongoengine.django.auth\<close> can be imported and has the class \<open>User\<close>, that class is
  the one resolved and \<open>contribute_to_class\<close> succeeds with its primary field and its
  required fields projected on the relational model.
\<close>

theorem absent_setting_uses_default_document:
  assumes "settings env ''MONGOENGINE_USER_DOCUMENT'' = None"
  shows "MONGOENGINE_USER_DOCUMENT env = ''mongoengine.django.auth.User''
     \<and> (\<forall>module doc.
           import_module env ''mongoengine.django.auth'' = Inr module \<and> module ''User'' = Some doc \<longrightarrow>
             get_user_document env = Inr doc
             \<and> (\<exists>self' w'. contribute_to_class env self cls name w = Inr (self', w')
                  \<and> model self' = Some doc
                  \<and> dj_USERNAME_FIELD (relational w' cls) = Some (USERNAME_FIELD doc)
                  \<and> dj_REQUIRED_FIELDS (relational w' cls) = Some (REQUIRED_FIELDS doc)
                  \<and> local_fields (relational w' cls) =
                      local_fields (relational w cls) @
                        (USERNAME_FIELD doc,
                          \<lparr>verbose_name = ugettext_lazy ''username'', max_length = 30, unique = True\<rparr>)
                        # map (\<lambda>n. (n, \<lparr>verbose_name = ugettext_lazy n, max_length = 30, unique = False\<rparr>))
                            (REQUIRED_FIELDS doc)))"
proof (rule conjI)
  show n: "MONGOENGINE_USER_DOCUMENT env = ''mongoengine.django.auth.User''"
    using assms by (simp add: MONGOENGINE_USER_DOCUMENT_def)
  have s: "MONGOENGINE_USER_DOCUMENT env = ''mongoengine.django.auth'' @ ''.'' @ ''User''"
    using n by simp
  have d: "CHR ''.'' \<notin> set ''User''" by simp
  show "\<forall>module doc.
           import_module env ''mongoengine.django.auth'' = Inr module \<and> module ''User'' = Some doc \<longrightarrow>
             get_user_document env = Inr doc
             \<and> (\<exists>self' w'. contribute_to_class env self cls name w = Inr (self', w')
                  \<and> model self' = Some doc
                  \<and> dj_USERNAME_FIELD (relational w' cls) = Some (USERNAME_FIELD doc)
                  \<and> dj_REQUIRED_FIELDS (relational w' cls) = Some (REQUIRED_FIELDS doc)
                  \<and> local_fields (relational w' cls) =
                      local_fields (relational w cls) @
                        (USERNAME_FIELD doc,
                          \<lparr>verbose_name = ugettext_lazy ''username'', max_length = 30, unique = True\<rparr>)
                        # map (\<lambda>n. (n, \<lparr>verbose_name = ugettext_lazy n, max_length = 30, unique = False\<rparr>))
                            (REQUIRED_FIELDS doc))"
  proof (intro allI impI)
    fix module doc
    assume h: "import_module env ''mongoengine.django.auth'' = Inr module \<and> module ''User'' = Some doc"
    have g: "get_user_document env = Inr doc"
      unfolding get_user_document_split [OF s d] using h by (simp add: getattr_def)
    from contribute_to_class_resolved [OF g, of self cls name w] obtain w'
      where c: "contribute_to_class env self cls name w = Inr (self\<lparr>dj_model := Some cls, model := Some doc\<rparr>, w')"
        and r: "relational w' cls = (relational w cls)
          \<lparr>dj_USERNAME_FIELD := Some (USERNAME_FIELD doc),
           dj_REQUIRED_FIELDS := Some (REQUIRED_FIELDS doc),
           local_fields := local_fields (relational w cls) @
              (USERNAME_FIELD doc, username_field) # map plain_field (REQUIRED_FIELDS doc),
           managers := managers (relational w cls) @ [name]\<rparr>"
      by blast
    have pf: "plain_field = (\<lambda>n. (n, \<lparr>verbose_name = ugettext_lazy n, max_length = 30, unique = False\<rparr>))"
      by (rule ext) (simp add: plain_field_def)
    have m: "model (self\<lparr>dj_model := Some cls, model := Some doc\<rparr>) = Some doc" by simp
    have 1: "dj_USERNAME_FIELD (relational w' cls) = Some (USERNAME_FIELD doc)"
      unfolding r by simp
    have 2: "dj_REQUIRED_FIELDS (relational w' cls) = Some (REQUIRED_FIELDS doc)"
      unfolding r by simp
    have 3: "local_fields (relational w' cls) =
         local_fields (relational w cls) @
           (USERNAME_FIELD doc,
             \<lparr>verbose_name = ugettext_lazy ''username'', max_length = 30, unique = True\<rparr>)
           # map (\<lambda>n. (n, \<lparr>verbose_name = ugettext_lazy n, max_length = 30, unique = False\<rparr>))
               (REQUIRED_FIELDS doc)"
      unfolding r pf [symmetric] by (simp add: username_field_def)
    from c m 1 2 3 have "\<exists>self' w'. contribute_to_class env self cls name w = Inr (self', w')
                  \<and> model self' = Some doc
                  \<and> dj_USERNAME_FIELD (relational w' cls) = Some (USERNAME_FIELD doc)
                  \<and> dj_REQUIRED_FIELDS (relational w' cls) = Some (REQUIRED_FIELDS doc)
                  \<and> local_fields (relational w' cls) =
                      local_fields (relational w cls) @
                        (USERNAME_FIELD doc,
                          \<lparr>verbose_name = ugettext_lazy ''username'', max_length = 30, unique = True\<rparr>)
                        # map (\<lambda>n. (n, \<lparr>verbose_name = ugettext_lazy n, max_length = 30, unique = False\<rparr>))
                            (REQUIRED_FIELDS doc)"
      by blast
    with g show "get_user_document env = Inr doc
             \<and> (\<exists>self' w'. contribute_to_class env self cls name w = Inr (self', w')
                  \<and> model self' = Some doc
                  \<and> dj_USERNAME_FIELD (relational w' cls) = Some (USERNAME_FIELD doc)
                  \<and> dj_REQUIRED_FIELDS (relational w' cls) = Some (REQUIRED_FIELDS doc)
                  \<and> local_fields (relational w' cls) =
                      local_fields (relational w cls) @
                        (USERNAME_FIELD doc,
                          \<lparr>verbose_name = ugettext_lazy ''username'', max_length = 30, unique = True\<rparr>)
                        # map (\<lambda>n. (n, \<lparr>verbose_name = ugettext_lazy n, max_length = 30, unique = False\<rparr>))
                            (REQUIRED_FIELDS doc))"
      by (rule conjI)
  qed
qed

theorem absent_setting_uses_default_document_witness:
  "settings default_env ''MONGOENGINE_USER_DOCUMENT'' = None
   \<and> MONGOENGINE_USER_DOCUMENT default_env = ''mongoengine.django.auth.User''
   \<and> import_module default_env ''mongoengine.django.auth'' = Inr auth_module
   \<and> auth_module ''User'' = Some user_document
   \<and> get_user_document default_env = Inr user_document
   \<and> (\<exists>self' w'. contribute_to_class default_env unbound_manager 0 ''objects'' empty_world = Inr (self', w')
        \<and> model self' = Some user_document
        \<and> dj_USERNAME_FIELD (relational w' 0) = Some ''username''
        \<and> dj_REQUIRED_FIELDS (relational w' 0) = Some [''email''])"
proof -
  have a: "settings default_env ''MONGOENGINE_USER_DOCUMENT'' = None"
    by (simp add: default_env_def)
  have i: "import_module default_env ''mongoengine.django.auth'' = Inr auth_module"
    by (simp add: default_env_def)
  have k: "auth_module ''User'' = Some user_document"
    by (simp add: auth_module_def)
  have u: "USERNAME_FIELD user_document = ''username''"
    and q: "REQUIRED_FIELDS user_document = [''email'']"
    by (simp_all add: user_document_def)
  note t = absent_setting_uses_default_document [OF a, of unbound_manager 0 "''objects''" empty_world]
  have n: "MONGOENGINE_USER_DOCUMENT default_env = ''mongoengine.django.auth.User''"
    using t by (rule conjunct1)
  note t2 = t [THEN conjunct2, rule_format, OF conjI, OF i k]
  have g: "get_user_document default_env = Inr user_document"
    using t2 by (rule conjunct1)
  from t2 [THEN conjunct2] obtain self' w' where
    c: "contribute_to_class default_env unbound_manager 0 ''objects'' empty_world = Inr (self', w')"
    and m: "model self' = Some user_document"
    and 1: "dj_USERNAME_FIELD (relational w' 0) = Some (USERNAME_FIELD user_document)"
    and 2: "dj_REQUIRED_FIELDS (relational w' 0) = Some (REQUIRED_FIELDS user_document)"
    by blast
  from c m 1 [unfolded u] 2 [unfolded q] have
    e: "\<exists>self' w'. contribute_to_class default_env unbound_manager 0 ''objects'' empty_world = Inr (self', w')
        \<and> model self' = Some user_document
        \<and> dj_USERNAME_FIELD (relational w' 0) = Some ''username''
        \<and> dj_REQUIRED_FIELDS (relational w' 0) = Some [''email'']"
    by (intro exI conjI)
  show ?thesis by (intro conjI; fact)
qed

subsection \<open>What the query operations read\<close>

text \<open>
  C4, as the code has it. After \<open>contribute_to_class\<close> has bound the manager,
  \<open>get_query_set\<close> returns the \<open>objects\<close> of the document class and
  \<open>get_empty_query_set\<close> its \<open>objects.none()\<close>; \<open>get\<close> forwards the criteria to
  the \<open>get\<close> of the document class's \<open>objects\<close> and reads the relational model only
  for its \<open>DoesNotExist\<close>, which it raises when the document layer raised an instance
  of the \<open>DoesNotExist\<close> of the document class (of that class or of a subclass of it);
  a document found, and every other exception, is the result as it is. Each operation leaves the world unchanged, and
  in two worlds that agree on the document layer's \<open>get\<close> and on the \<open>DoesNotExist\<close>
  of the relational model the operations give the same results, whatever the rows of
  the backing table and the other attributes of the relational models are.
\<close>

theorem bound_queries_target_document_schema:
  assumes "contribute_to_class env self0 cls name w0 = Inr (self, w1)"
  shows "\<exists>doc. get_user_document env = Inr doc \<and> model self = Some doc
     \<and> get_query_set self w = (Inr (objects doc), w)
     \<and> get_empty_query_set self w = (Inr (QuerySet_none (objects doc)), w)
     \<and> snd (get self args kwargs w) = w
     \<and> fst (get self args kwargs w) =
         (case QuerySet_get w (objects doc) args kwargs of
            Inr d \<Rightarrow> Inr d
          | Inl e \<Rightarrow> if isinstance e (DoesNotExist doc)
                     then Inl (Raised (dj_DoesNotExist (relational w cls)))
                     else Inl e)
     \<and> (\<forall>w'. QuerySet_get w' = QuerySet_get w
              \<and> dj_DoesNotExist (relational w' cls) = dj_DoesNotExist (relational w cls) \<longrightarrow>
            fst (get self args kwargs w') = fst (get self args kwargs w)
            \<and> fst (get_query_set self w') = fst (get_query_set self w)
            \<and> fst (get_empty_query_set self w') = fst (get_empty_query_set self w))"
proof -
  from contribute_to_class_bound [OF assms] obtain doc
    where g: "get_user_document env = Inr doc"
      and m: "model self = Some doc" and d: "dj_model self = Some cls"
    by blast
  have gq: "\<And>v. get_query_set self v = (Inr (objects doc), v)"
    using m by (simp add: get_query_set_def)
  have ge: "\<And>v. get_empty_query_set self v = (Inr (QuerySet_none (objects doc)), v)"
    using m by (simp add: get_empty_query_set_def)
  have gs: "snd (get self args kwargs w) = w"
    using m d by (simp add: get_def get_query_set_def split: sum.splits)
  have gf: "\<And>v. fst (get self args kwargs v) =
         (case QuerySet_get v (objects doc) args kwargs of
            Inr d \<Rightarrow> Inr d
          | Inl e \<Rightarrow> if isinstance e (DoesNotExist doc)
                     then Inl (Raised (dj_DoesNotExist (relational v cls)))
                     else Inl e)"
    using m d by (simp add: get_def get_query_set_def split: sum.splits)
  have ni: "\<forall>w'. QuerySet_get w' = QuerySet_get w
              \<and> dj_DoesNotExist (relational w' cls) = dj_DoesNotExist (relational w cls) \<longrightarrow>
            fst (get self args kwargs w') = fst (get self args kwargs w)
            \<and> fst (get_query_set self w') = fst (get_query_set self w)
            \<and> fst (get_empty_query_set self w') = fst (get_empty_query_set self w)"
    by (auto simp: gf gq ge split: sum.splits)
  from g m gq [of w] ge [of w] gs gf [of w] ni show ?thesis by blast
qed

theorem bound_queries_target_document_schema_witness:
  "contribute_to_class default_env unbound_manager 0 ''objects'' empty_world
     = Inr (bound_manager, bound_world)
   \<and> get_query_set bound_manager stocked_world
       = (Inr \<lparr>collection = ''user'', emptied = False\<rparr>, stocked_world)
   \<and> get_empty_query_set bound_manager stocked_world
       = (Inr \<lparr>collection = ''user'', emptied = True\<rparr>, stocked_world)
   \<and> snd (get bound_manager [] [(''username'', ''ann'')] stocked_world) = stocked_world
   \<and> QuerySet_get empty_world = QuerySet_get stocked_world
   \<and> dj_DoesNotExist (relational empty_world 0) = dj_DoesNotExist (relational stocked_world 0)
   \<and> relational empty_world 0 \<noteq> relational stocked_world 0
   \<and> fst (get bound_manager [] [(''username'', ''ann'')] empty_world)
       = fst (get bound_manager [] [(''username'', ''ann'')] stocked_world)
   \<and> fst (get bound_manager [] [(''username'', ''ann'')] subclass_world)
       = Inl (Raised (ExcClass ''MongoUser.DoesNotExist'' []))
   \<and> fst (get bound_manager [] [(''username'', ''ann'')] failing_world)
       = Inl (Raised (ExcClass ''MultipleObjectsReturned'' []))"
proof -
  have b: "contribute_to_class default_env unbound_manager 0 ''objects'' empty_world
     = Inr (bound_manager, bound_world)"
    by (rule default_env_binds)
  have t: "fst (get bound_manager [] [(''username'', ''ann'')] v) =
         (case QuerySet_get v (objects user_document) [] [(''username'', ''ann'')] of
            Inr d \<Rightarrow> Inr d
          | Inl e \<Rightarrow> if isinstance e (DoesNotExist user_document)
                     then Inl (Raised (dj_DoesNotExist (relational v 0)))
                     else Inl e)" for v
  proof -
    from bound_queries_target_document_schema [OF b, of v "[]" "[(''username'', ''ann'')]"]
    obtain doc where g: "get_user_document default_env = Inr doc"
      and gf: "fst (get bound_manager [] [(''username'', ''ann'')] v) =
         (case QuerySet_get v (objects doc) [] [(''username'', ''ann'')] of
            Inr d \<Rightarrow> Inr d
          | Inl e \<Rightarrow> if isinstance e (DoesNotExist doc)
                     then Inl (Raised (dj_DoesNotExist (relational v 0)))
                     else Inl e)"
      by blast
    have e: "doc = user_document"
      using g unfolding default_env_resolves by simp
    show ?thesis using gf unfolding e .
  qed
  have p4: "fst (get bound_manager [] [(''username'', ''ann'')] subclass_world)
       = Inl (Raised (ExcClass ''MongoUser.DoesNotExist'' []))"
    unfolding t by (simp add: subclass_world_def bound_world_def isinstance_def user_document_def)
  have p5: "fst (get bound_manager [] [(''username'', ''ann'')] failing_world)
       = Inl (Raised (ExcClass ''MultipleObjectsReturned'' []))"
    unfolding t by (simp add: failing_world_def bound_world_def isinstance_def user_document_def)
  have o: "objects user_document = \<lparr>collection = ''user'', emptied = False\<rparr>"
    and n: "QuerySet_none (objects user_document) = \<lparr>collection = ''user'', emptied = True\<rparr>"
    by (simp_all add: user_document_def QuerySet_none_def)
  have q: "QuerySet_get empty_world = QuerySet_get stocked_world"
    by (simp add: empty_world_def stocked_world_def bound_world_def)
  have x: "dj_DoesNotExist (relational empty_world 0) = dj_DoesNotExist (relational stocked_world 0)"
    by (simp add: empty_world_def stocked_world_def bound_world_def blank_model_def)
  have y: "relational empty_world 0 \<noteq> relational stocked_world 0"
    by (simp add: empty_world_def stocked_world_def bound_world_def blank_model_def)
  from bound_queries_target_document_schema
         [OF b, of stocked_world "[]" "[(''username'', ''ann'')]"]
  obtain doc where g: "get_user_document default_env = Inr doc"
    and gq: "get_query_set bound_manager stocked_world = (Inr (objects doc), stocked_world)"
    and ge: "get_empty_query_set bound_manager stocked_world
               = (Inr (QuerySet_none (objects doc)), stocked_world)"
    and gs: "snd (get bound_manager [] [(''username'', ''ann'')] stocked_world) = stocked_world"
    and ni: "\<forall>w'. QuerySet_get w' = QuerySet_get stocked_world
              \<and> dj_DoesNotExist (relational w' 0) = dj_DoesNotExist (relational stocked_world 0) \<longrightarrow>
            fst (get bound_manager [] [(''username'', ''ann'')] w')
              = fst (get bound_manager [] [(''username'', ''ann'')] stocked_world)
            \<and> fst (get_query_set bound_manager w') = fst (get_query_set bound_manager stocked_world)
            \<and> fst (get_empty_query_set bound_manager w')
                = fst (get_empty_query_set bound_manager stocked_world)"
    by blast
  have dd: "doc = user_document"
    using g unfolding default_env_resolves by simp
  have p1: "get_query_set bound_manager stocked_world
       = (Inr \<lparr>collection = ''user'', emptied = False\<rparr>, stocked_world)"
    using gq unfolding dd o .
  have p2: "get_empty_query_set bound_manager stocked_world
       = (Inr \<lparr>collection = ''user'', emptied = True\<rparr>, stocked_world)"
    using ge unfolding dd n .
  have p3: "fst (get bound_manager [] [(''username'', ''ann'')] empty_world)
       = fst (get bound_manager [] [(''username'', ''ann'')] stocked_world)"
    using ni [rule_format, OF conjI, OF q x] by (rule conjunct1)
  show ?thesis by (intro conjI; fact)
qed

text \<open>
  The result of \<open>get\<close> does depend on the relational model: in two worlds that differ
  only in the \<open>DoesNotExist\<close> of the relational model, a lookup that finds no document
  raises different exceptions.
\<close>

theorem get_depends_on_relational_DoesNotExist_counterexample:
  "contribute_to_class default_env unbound_manager 0 ''objects'' empty_world
     = Inr (bound_manager, bound_world)
   \<and> stored renamed_world = stored bound_world
   \<and> QuerySet_get renamed_world = QuerySet_get bound_world
   \<and> fst (get bound_manager [] [(''username'', ''ann'')] bound_world)
       = Inl (Raised (ExcClass ''MongoUser.DoesNotExist'' []))
   \<and> fst (get bound_manager [] [(''username'', ''ann'')] renamed_world)
       = Inl (Raised (ExcClass ''Other.DoesNotExist'' []))
   \<and> fst (get bound_manager [] [(''username'', ''ann'')] bound_world)
       \<noteq> fst (get bound_manager [] [(''username'', ''ann'')] renamed_world)"
proof -
  have s: "stored renamed_world = stored bound_world"
    by (simp add: renamed_world_def)
  have q: "QuerySet_get renamed_world = QuerySet_get bound_world"
    by (simp add: renamed_world_def)
  have a: "fst (get bound_manager [] [(''username'', ''ann'')] bound_world)
       = Inl (Raised (ExcClass ''MongoUser.DoesNotExist'' []))"
    by (simp add: get_def get_query_set_def isinstance_def bound_manager_def bound_world_def
        user_document_def)
  have b: "fst (get bound_manager [] [(''username'', ''ann'')] renamed_world)
       = Inl (Raised (ExcClass ''Other.DoesNotExist'' []))"
    by (simp add: get_def get_query_set_def isinstance_def bound_manager_def renamed_world_def
        bound_world_def user_document_def)
  have c: "fst (get bound_manager [] [(''username'', ''ann'')] bound_world)
       \<noteq> fst (get bound_manager [] [(''username'', ''ann'')] renamed_world)"
    unfolding a b by simp
  note d = default_env_binds
  show ?thesis by (intro conjI; fact)
qed

end
